theory Spec2Isabelle
  imports Complex_Main
begin

section \<open>Errors\<close>

text \<open>
  Every exception a resolver can raise is a value. \<open>InvalidDecimal\<close> is the failure of the
  decimal constructor on a non-numeric string, \<open>DivisionByZero\<close> the failure of a division
  whose divisor is the zero value, \<open>TypeError\<close> the failure of a call that the receiver does
  not support.
\<close>

datatype error = InvalidDecimal | DivisionByZero | TypeError

section \<open>Decimal values\<close>

text \<open>
  Modelled from the spec: the arbitrary-precision decimal class (imported from the package
  \<^verbatim>\<open>bigdecimal\<close>) is not part of the source file. Section 4.2 of the specification gives
  its contract: parsing fails on non-numeric input, addition, subtraction and
  multiplication are exact, division takes an explicit scale, rounds down (toward zero)
  and fails on a zero divisor. A decimal is an unscaled integer together with the number
  of fractional digits: it stands for \<open>unscaled / 10 ^ dscale\<close>.
\<close>

record decimal =
  unscaled :: int
  dscale :: nat

definition dec_value :: "decimal \<Rightarrow> rat" where
  "dec_value d = of_int (unscaled d) / 10 ^ dscale d"

definition dec_zero :: decimal where
  "dec_zero = \<lparr>unscaled = 0, dscale = 0\<rparr>"

definition dec_add :: "decimal \<Rightarrow> decimal \<Rightarrow> decimal" where
  "dec_add a b =
     (let s = max (dscale a) (dscale b)
      in \<lparr>unscaled = unscaled a * 10 ^ (s - dscale a) + unscaled b * 10 ^ (s - dscale b),
          dscale = s\<rparr>)"

definition dec_sub :: "decimal \<Rightarrow> decimal \<Rightarrow> decimal" where
  "dec_sub a b =
     (let s = max (dscale a) (dscale b)
      in \<lparr>unscaled = unscaled a * 10 ^ (s - dscale a) - unscaled b * 10 ^ (s - dscale b),
          dscale = s\<rparr>)"

definition dec_mul :: "decimal \<Rightarrow> decimal \<Rightarrow> decimal" where
  "dec_mul a b = \<lparr>unscaled = unscaled a * unscaled b, dscale = dscale a + dscale b\<rparr>"

text \<open>Integer division that truncates toward zero (the rounding mode ROUND_DOWN).\<close>

definition tdiv :: "int \<Rightarrow> int \<Rightarrow> int" where
  "tdiv x y = sgn x * sgn y * (\<bar>x\<bar> div \<bar>y\<bar>)"

definition dec_div :: "decimal \<Rightarrow> decimal \<Rightarrow> nat \<Rightarrow> error + decimal" where
  "dec_div a b sc =
     (if unscaled b = 0 then Inl DivisionByZero
      else Inr \<lparr>unscaled = tdiv (unscaled a * 10 ^ (sc + dscale b)) (unscaled b * 10 ^ dscale a),
                dscale = sc\<rparr>)"

text \<open>The rational a decimal at scale \<open>sc\<close> must have to be \<open>q\<close> rounded toward zero.\<close>

definition round_down :: "rat \<Rightarrow> int" where
  "round_down q = (if 0 \<le> q then \<lfloor>q\<rfloor> else \<lceil>q\<rceil>)"

subsection \<open>Parsing decimal strings\<close>

text \<open>
  Modelled from the spec: \<open>parse(string) -> Money\<close>, failing on non-numeric input. The
  accepted syntax is an optional sign, one or more digits, and optionally a point followed
  by one or more digits.
\<close>

definition is_digit :: "char \<Rightarrow> bool" where
  "is_digit c = (let n = (of_char c :: nat) in 48 \<le> n \<and> n \<le> 57)"

definition digit_of :: "char \<Rightarrow> nat" where
  "digit_of c = of_char c - 48"

fun digits_val :: "string \<Rightarrow> nat \<Rightarrow> nat" where
  "digits_val [] acc = acc"
| "digits_val (c # cs) acc = digits_val cs (10 * acc + digit_of c)"

definition all_digits :: "string \<Rightarrow> bool" where
  "all_digits s = (s \<noteq> [] \<and> list_all is_digit s)"

definition parse_unsigned :: "string \<Rightarrow> decimal option" where
  "parse_unsigned s =
     (let ip = takeWhile (\<lambda>c. c \<noteq> CHR ''.'') s;
          rest = dropWhile (\<lambda>c. c \<noteq> CHR ''.'') s
      in if rest = []
         then (if all_digits ip
               then Some \<lparr>unscaled = int (digits_val ip 0), dscale = 0\<rparr>
               else None)
         else (let fp = tl rest
               in if all_digits ip \<and> all_digits fp
                  then Some \<lparr>unscaled = int (digits_val (ip @ fp) 0), dscale = length fp\<rparr>
                  else None))"

definition dec_neg :: "decimal \<Rightarrow> decimal" where
  "dec_neg d = d\<lparr>unscaled := - unscaled d\<rparr>"

fun parse_decimal :: "string \<Rightarrow> decimal option" where
  "parse_decimal [] = None"
| "parse_decimal (c # cs) =
     (if c = CHR ''-'' then map_option dec_neg (parse_unsigned cs)
      else if c = CHR ''+'' then parse_unsigned cs
      else parse_unsigned (c # cs))"

section \<open>Objects, the execution state and the resolver monad\<close>

text \<open>
  A \<^verbatim>\<open>bigDecimal\<close> is a JavaScript object: it has an identity besides its contents, and the
  operator \<^verbatim>\<open>==\<close> applied to two objects compares identities, not contents.
\<close>

record money =
  obj_id :: nat
  dec :: decimal

definition js_eq :: "money \<Rightarrow> money \<Rightarrow> bool" where
  "js_eq a b = (obj_id a = obj_id b)"

text \<open>
  An argument of an arithmetic method is what the caller passes: a decimal object, or a
  raw string field of an upstream object.
\<close>

datatype operand = Obj money | Str string

datatype arg_kind = MoneyArg | RawStringArg

fun kind_of :: "operand \<Rightarrow> arg_kind" where
  "kind_of (Obj m) = MoneyArg"
| "kind_of (Str v) = RawStringArg"

text \<open>
  The state of one resolver run: the next fresh object identity, the path of the object a
  callback is working on (\<open>scope\<close>), the field paths dereferenced so far and the arithmetic
  calls made so far, each with the kind of its argument.
\<close>

record state =
  next_id :: nat
  scope :: "string list"
  derefs :: "string list list"
  calls :: "(string \<times> arg_kind) list"

definition init_state :: state where
  "init_state = \<lparr>next_id = 0, scope = [], derefs = [], calls = []\<rparr>"

text \<open>
  A run ends with a value or with the error it raised, and in both cases with the state
  reached: what was read and called before an exception stays on record.
\<close>

type_synonym 'a M = "state \<Rightarrow> (error \<times> state) + ('a \<times> state)"

definition returnM :: "'a \<Rightarrow> 'a M" where
  "returnM a s = Inr (a, s)"

definition throwM :: "error \<Rightarrow> 'a M" where
  "throwM e s = Inl (e, s)"

definition bindM :: "'a M \<Rightarrow> ('a \<Rightarrow> 'b M) \<Rightarrow> 'b M" where
  "bindM m f s = (case m s of Inl es \<Rightarrow> Inl es | Inr (a, s') \<Rightarrow> f a s')"

text \<open>Reading the field at path \<open>p\<close> of the current object; \<open>v\<close> is the value found there.\<close>

definition deref :: "string list \<Rightarrow> 'a \<Rightarrow> 'a M" where
  "deref p v s = Inr (v, s\<lparr>derefs := derefs s @ [scope s @ p]\<rparr>)"

text \<open>Running \<open>m\<close> on the sub-object at field \<open>f\<close> of the current object.\<close>

definition in_field :: "string \<Rightarrow> 'a M \<Rightarrow> 'a M" where
  "in_field f m s =
     (case m (s\<lparr>scope := scope s @ [f]\<rparr>) of
        Inl (e, s') \<Rightarrow> Inl (e, s'\<lparr>scope := scope s\<rparr>)
      | Inr (a, s') \<Rightarrow> Inr (a, s'\<lparr>scope := scope s\<rparr>))"

definition new_money :: "decimal \<Rightarrow> money M" where
  "new_money d s = Inr (\<lparr>obj_id = next_id s, dec = d\<rparr>, s\<lparr>next_id := Suc (next_id s)\<rparr>)"

text \<open>\<^verbatim>\<open>const bigdec = (value: string) => new bigDecimal(value)\<close>\<close>

definition bigdec :: "string \<Rightarrow> money M" where
  "bigdec v s =
     (case parse_decimal v of None \<Rightarrow> Inl (InvalidDecimal, s) | Some d \<Rightarrow> new_money d s)"

subsection \<open>What the source asks of the decimal class beyond its contract\<close>

text \<open>
  The specification's contract of the decimal class has \<open>add\<close>, \<open>subtract\<close>, \<open>multiply\<close> and
  \<open>divide\<close>, each on decimals. The source does two things the contract does not cover: it
  passes raw string fields as arguments of these methods, and it calls a method \<^verbatim>\<open>plus\<close>.
  The class is not part of the source file, so what it does then is a parameter of the
  model, with the readings a class can have:
  \<^item> a method given a raw string either reads it as the decimal it encodes (\<open>Converts\<close>) or
    raises a type error (\<open>Rejects\<close>);
  \<^item> \<^verbatim>\<open>plus\<close> is either addition (\<open>Adds\<close>), or the unary plus that returns its receiver
    (\<open>Unary\<close>), or not a method of the class, so that the call raises a type error
    (\<open>Missing\<close>).
\<close>

datatype string_args = Converts | Rejects

datatype plus_method = Adds | Unary | Missing

datatype decimal_class = DecimalClass (string_args: string_args) (plus_method: plus_method)

text \<open>The decimal a method works with, for the argument it was given.\<close>

definition argument :: "decimal_class \<Rightarrow> operand \<Rightarrow> decimal M" where
  "argument cls x =
     (case x of
        Obj m \<Rightarrow> returnM (dec m)
      | Str v \<Rightarrow>
          (case string_args cls of
             Rejects \<Rightarrow> throwM TypeError
           | Converts \<Rightarrow>
               (case parse_decimal v of None \<Rightarrow> throwM InvalidDecimal | Some d \<Rightarrow> returnM d)))"

definition record_call :: "string \<Rightarrow> operand \<Rightarrow> unit M" where
  "record_call name x s = Inr ((), s\<lparr>calls := calls s @ [(name, kind_of x)]\<rparr>)"

text \<open>
  Modelled from the spec: the methods \<open>add\<close>, \<open>subtract\<close>, \<open>multiply\<close> (exact) and \<open>divide\<close>
  (at the given scale, rounding down, failing on the zero divisor) of the decimal class,
  which is not part of the source file. Every call is recorded with the kind of its
  argument, and every result is a new object.
\<close>

definition arith ::
  "decimal_class \<Rightarrow> string \<Rightarrow> (decimal \<Rightarrow> decimal \<Rightarrow> decimal) \<Rightarrow> money \<Rightarrow> operand \<Rightarrow> money M" where
  "arith cls name f a x =
     bindM (record_call name x) (\<lambda>_.
     bindM (argument cls x) (\<lambda>d.
     new_money (f (dec a) d)))"

definition bigDecimal_multiply :: "decimal_class \<Rightarrow> money \<Rightarrow> operand \<Rightarrow> money M" where
  "bigDecimal_multiply cls = arith cls ''multiply'' dec_mul"

definition bigDecimal_add :: "decimal_class \<Rightarrow> money \<Rightarrow> operand \<Rightarrow> money M" where
  "bigDecimal_add cls = arith cls ''add'' dec_add"

definition bigDecimal_subtract :: "decimal_class \<Rightarrow> money \<Rightarrow> operand \<Rightarrow> money M" where
  "bigDecimal_subtract cls = arith cls ''subtract'' dec_sub"

definition bigDecimal_divide :: "decimal_class \<Rightarrow> money \<Rightarrow> operand \<Rightarrow> nat \<Rightarrow> money M" where
  "bigDecimal_divide cls a x sc =
     bindM (record_call ''divide'' x) (\<lambda>_.
     bindM (argument cls x) (\<lambda>d.
     (case dec_div (dec a) d sc of Inl e \<Rightarrow> throwM e | Inr q \<Rightarrow> new_money q)))"

text \<open>The call \<^verbatim>\<open>a.plus(x)\<close>, under each reading of \<^verbatim>\<open>plus\<close>.\<close>

definition bigDecimal_plus :: "decimal_class \<Rightarrow> money \<Rightarrow> operand \<Rightarrow> money M" where
  "bigDecimal_plus cls a x =
     bindM (record_call ''plus'' x) (\<lambda>_.
     (case plus_method cls of
        Adds \<Rightarrow> bindM (argument cls x) (\<lambda>d. new_money (dec_add (dec a) d))
      | Unary \<Rightarrow> returnM a
      | Missing \<Rightarrow> throwM TypeError))"

text \<open>How a run ended, and the state it reached.\<close>

definition outcome :: "(error \<times> state) + ('a \<times> state) \<Rightarrow> error + 'a" where
  "outcome r = (case r of Inl (e, s) \<Rightarrow> Inl e | Inr (a, s) \<Rightarrow> Inr a)"

definition final_state :: "(error \<times> state) + ('a \<times> state) \<Rightarrow> state" where
  "final_state r = (case r of Inl (e, s) \<Rightarrow> s | Inr (a, s) \<Rightarrow> s)"

section \<open>Upstream objects\<close>

text \<open>
  The objects a resolver receives, with the fields the source reads. Every numeric field
  is a decimal string, as the upstream schema encodes it.
\<close>

record Market =
  borrowIndex :: string
  collateralFactor :: string
  exchangeRate :: string
  underlyingPrice :: string

record AccountCToken =
  cTokenBalance :: string
  storedBorrowBalance :: string
  accountBorrowIndex :: string
  totalUnderlyingSupplied :: string
  totalUnderlyingRedeemed :: string
  totalUnderlyingBorrowed :: string
  totalUnderlyingRepaid :: string
  market :: Market

record Account =
  hasBorrowed :: bool
  tokens :: "AccountCToken list"

section \<open>The derived-field functions\<close>

text \<open>
  Each function takes the reading \<open>cls\<close> of the decimal class as its first argument; the
  others are the arguments of the source function.
\<close>

definition supplyBalanceUnderlying :: "decimal_class \<Rightarrow> AccountCToken \<Rightarrow> money M" where
  "supplyBalanceUnderlying cls cToken =
     bindM (deref [''cTokenBalance''] (cTokenBalance cToken)) (\<lambda>b.
     bindM (bigdec b) (\<lambda>m.
     bindM (deref [''market'', ''exchangeRate''] (exchangeRate (market cToken))) (\<lambda>r.
     bigDecimal_multiply cls m (Str r))))"

definition borrowBalanceUnderlying :: "decimal_class \<Rightarrow> AccountCToken \<Rightarrow> money M" where
  "borrowBalanceUnderlying cls cToken =
     bindM (deref [''accountBorrowIndex''] (accountBorrowIndex cToken)) (\<lambda>i.
     bindM (bigdec i) (\<lambda>a.
     bindM (bigdec ''0'') (\<lambda>z.
     if js_eq a z then bigdec ''0''
     else
       bindM (deref [''storedBorrowBalance''] (storedBorrowBalance cToken)) (\<lambda>sb.
       bindM (bigdec sb) (\<lambda>m.
       bindM (deref [''market'', ''borrowIndex''] (borrowIndex (market cToken))) (\<lambda>bi.
       bindM (bigDecimal_multiply cls m (Str bi)) (\<lambda>p.
       bindM (deref [''accountBorrowIndex''] (accountBorrowIndex cToken)) (\<lambda>i2.
       bigDecimal_divide cls p (Str i2) 18))))))))"

definition tokenInEth :: "decimal_class \<Rightarrow> Market \<Rightarrow> money M" where
  "tokenInEth cls mk =
     bindM (deref [''collateralFactor''] (collateralFactor mk)) (\<lambda>cf.
     bindM (bigdec cf) (\<lambda>m.
     bindM (deref [''exchangeRate''] (exchangeRate mk)) (\<lambda>er.
     bindM (bigDecimal_multiply cls m (Str er)) (\<lambda>p.
     bindM (deref [''underlyingPrice''] (underlyingPrice mk)) (\<lambda>up.
     bigDecimal_multiply cls p (Str up))))))"



text \<open>\<^verbatim>\<open>Array.prototype.reduce(callback, initialValue)\<close>: a left fold in list order.\<close>

fun reduceM :: "('b \<Rightarrow> 'a \<Rightarrow> 'b M) \<Rightarrow> 'b \<Rightarrow> 'a list \<Rightarrow> 'b M" where
  "reduceM f acc [] = returnM acc"
| "reduceM f acc (x # xs) = bindM (f acc x) (\<lambda>acc'. reduceM f acc' xs)"

text \<open>
  The callbacks of the two reductions. The token is an element of \<^verbatim>\<open>account.___tokens\<close>,
  so its fields are read below that path.
\<close>

definition collateral_step :: "decimal_class \<Rightarrow> money \<Rightarrow> AccountCToken \<Rightarrow> money M" where
  "collateral_step cls acc token =
     in_field ''___tokens''
       (bindM (deref [''market''] (market token)) (\<lambda>mk.
        bindM (in_field ''market'' (tokenInEth cls mk)) (\<lambda>t.
        bindM (deref [''cTokenBalance''] (cTokenBalance token)) (\<lambda>b.
        bindM (bigDecimal_multiply cls t (Str b)) (\<lambda>v.
        bigDecimal_plus cls acc (Obj v))))))"

definition totalCollateralValueInEth :: "decimal_class \<Rightarrow> Account \<Rightarrow> money M" where
  "totalCollateralValueInEth cls account =
     bindM (deref [''___tokens''] (tokens account)) (\<lambda>ts.
     bindM (bigdec ''0'') (\<lambda>z.
     reduceM (collateral_step cls) z ts))"

definition borrow_step :: "decimal_class \<Rightarrow> money \<Rightarrow> AccountCToken \<Rightarrow> money M" where
  "borrow_step cls acc token =
     in_field ''___tokens''
       (bindM (deref [''market'', ''underlyingPrice''] (underlyingPrice (market token))) (\<lambda>up.
        bindM (bigdec up) (\<lambda>p.
        bindM (borrowBalanceUnderlying cls token) (\<lambda>bb.
        bindM (bigDecimal_multiply cls p (Obj bb)) (\<lambda>v.
        bigDecimal_plus cls acc (Obj v))))))"

definition totalBorrowValueInEth :: "decimal_class \<Rightarrow> Account \<Rightarrow> money M" where
  "totalBorrowValueInEth cls account =
     bindM (deref [''hasBorrowed''] (hasBorrowed account)) (\<lambda>hb.
     if \<not> hb then bigdec ''0''
     else
       bindM (deref [''___tokens''] (tokens account)) (\<lambda>ts.
       bindM (bigdec ''0'') (\<lambda>z.
       reduceM (borrow_step cls) z ts)))"

section \<open>The registered resolvers\<close>

text \<open>The resolver of \<^verbatim>\<open>Account.health\<close>; \<open>None\<close> is the value \<^verbatim>\<open>null\<close>.\<close>

definition health_resolve :: "decimal_class \<Rightarrow> Account \<Rightarrow> money option M" where
  "health_resolve cls account =
     bindM (deref [''hasBorrowed''] (hasBorrowed account)) (\<lambda>hb.
     if \<not> hb then returnM None
     else
       bindM (totalBorrowValueInEth cls account) (\<lambda>totalBorrow.
       bindM (bigdec ''0'') (\<lambda>z.
       if js_eq totalBorrow z
       then bindM (totalCollateralValueInEth cls account) (\<lambda>c. returnM (Some c))
       else
         bindM (totalCollateralValueInEth cls account) (\<lambda>c.
         bindM (bigDecimal_divide cls c (Obj totalBorrow) 18) (\<lambda>h.
         returnM (Some h))))))"









subsection \<open>Fragments\<close>














subsection \<open>Type extensions and the resolver map\<close>

record gql_type =
  type_name :: string
  non_null :: bool

text \<open>The type extensions of \<^verbatim>\<open>customSchema\<close>, per extended type, in source order.\<close>

definition customSchema :: "(string \<times> (string \<times> gql_type) list) list" where
  "customSchema =
     [(''Account'',
        [(''totalBorrowValueInEth'', \<lparr>type_name = ''BigDecimal'', non_null = True\<rparr>),
         (''totalCollateralValueInEth'', \<lparr>type_name = ''BigDecimal'', non_null = True\<rparr>)]),
      (''AccountCToken'',
        [(''supplyBalanceUnderlying'', \<lparr>type_name = ''BigDecimal'', non_null = True\<rparr>),
         (''lifetimeSupplyInterestAccrued'', \<lparr>type_name = ''BigDecimal'', non_null = True\<rparr>),
         (''borrowBalanceUnderlying'', \<lparr>type_name = ''BigDecimal'', non_null = True\<rparr>),
         (''lifetimeBorrowInterestAccrued'', \<lparr>type_name = ''BigDecimal'', non_null = True\<rparr>),
         (''supplyBalanceETH'', \<lparr>type_name = ''BigDecimal'', non_null = True\<rparr>)])]"

text \<open>The keys of the \<^verbatim>\<open>resolvers\<close> object passed to \<^verbatim>\<open>mergeSchemas\<close>, in source order.\<close>

definition resolvers :: "(string \<times> string list) list" where
  "resolvers =
     [(''Account'', [''health'', ''totalBorrowValueInEth'', ''totalCollateralValueInEth'']),
      (''AccountCToken'',
        [''supplyBalanceUnderlying'', ''supplyBalanceETH'', ''lifetimeSupplyInterestAccrued'',
         ''borrowBalanceUnderlying'', ''borrowBalanceETH'', ''lifetimeBorrowInterestAccrued''])]"

definition declared :: "string \<Rightarrow> string \<Rightarrow> gql_type option" where
  "declared t f = (case map_of customSchema t of None \<Rightarrow> None | Some fs \<Rightarrow> map_of fs f)"

definition registered :: "string \<Rightarrow> string \<Rightarrow> bool" where
  "registered t f = (case map_of resolvers t of None \<Rightarrow> False | Some fs \<Rightarrow> f \<in> set fs)"

section \<open>Routing of operations\<close>

text \<open>
  The main definition of an operation's document, as \<^verbatim>\<open>getMainDefinition\<close> returns it: its
  \<^verbatim>\<open>kind\<close> and, for an operation definition, its \<^verbatim>\<open>operation\<close> (absent on a fragment
  definition).
\<close>

record definition_node =
  kind :: string
  operation :: "string option"

datatype channel = WsLink | HttpLink

text \<open>\<^verbatim>\<open>split(test, left, right)\<close> sends an operation to \<open>left\<close> when the test holds.\<close>

definition split_link :: "('op \<Rightarrow> bool) \<Rightarrow> channel \<Rightarrow> channel \<Rightarrow> 'op \<Rightarrow> channel" where
  "split_link test left right op = (if test op then left else right)"

definition is_subscription :: "definition_node \<Rightarrow> bool" where
  "is_subscription d = (kind d = ''OperationDefinition'' \<and> operation d = Some ''subscription'')"

definition link :: "definition_node \<Rightarrow> channel" where
  "link = split_link is_subscription WsLink HttpLink"

section \<open>Header filtering\<close>

text \<open>
  A request with its headers; a header that is present has a string value, possibly the
  empty string. A JavaScript condition holds for a string exactly when it is non-empty,
  and fails for \<^verbatim>\<open>undefined\<close>.
\<close>

record request =
  headers :: "string \<rightharpoonup> string"
  body :: string

datatype outcome = Responded nat string | Next request

definition truthy :: "string option \<Rightarrow> bool" where
  "truthy v = (case v of None \<Rightarrow> False | Some x \<Rightarrow> x \<noteq> [])"

definition rejectBadHeaders :: "request \<Rightarrow> outcome" where
  "rejectBadHeaders req =
     (if truthy (headers req ''challenge-bypass-token'') \<or> truthy (headers req ''x_proxy_id'')
      then Responded 400 ''Bad Request''
      else Next req)"

section \<open>Reference definitions and example inputs\<close>

text \<open>The decimal a run returns, or the error it raises.\<close>

definition value_of :: "money M \<Rightarrow> state \<Rightarrow> error + decimal" where
  "value_of m s = (case m s of Inl (e, s') \<Rightarrow> Inl e | Inr (a, s') \<Rightarrow> Inr (dec a))"

text \<open>A run from the initial state raises when it ends with an error.\<close>

definition raises :: "'a M \<Rightarrow> bool" where
  "raises m = (case m init_state of Inl es \<Rightarrow> True | Inr r \<Rightarrow> False)"

text \<open>The arithmetic calls a run makes, whether it returns or raises.\<close>

definition calls_of :: "'a M \<Rightarrow> (string \<times> arg_kind) list" where
  "calls_of m = calls (final_state (m init_state))"

definition parse_e :: "string \<Rightarrow> error + decimal" where
  "parse_e v = (case parse_decimal v of None \<Rightarrow> Inl InvalidDecimal | Some d \<Rightarrow> Inr d)"

definition bind_e :: "error + 'a \<Rightarrow> ('a \<Rightarrow> error + 'b) \<Rightarrow> error + 'b" where
  "bind_e x f = (case x of Inl e \<Rightarrow> Inl e | Inr a \<Rightarrow> f a)"

text \<open>
  The specification's words for the collateral of an account, on decimals:
  \<open>collateralValueInReferenceCurrency(position) = market.collateralFactor \<times>
  market.exchangeRate \<times> market.underlyingPrice \<times> position.balance\<close>, and the total is the
  sum over the positions, folded left starting from 0.
\<close>

definition collateralValueInReferenceCurrency :: "AccountCToken \<Rightarrow> error + decimal" where
  "collateralValueInReferenceCurrency position =
     bind_e (parse_e (collateralFactor (market position))) (\<lambda>cf.
     bind_e (parse_e (exchangeRate (market position))) (\<lambda>er.
     bind_e (parse_e (underlyingPrice (market position))) (\<lambda>up.
     bind_e (parse_e (cTokenBalance position)) (\<lambda>bal.
     Inr (dec_mul (dec_mul (dec_mul cf er) up) bal)))))"

definition add_collateral :: "error + decimal \<Rightarrow> AccountCToken \<Rightarrow> error + decimal" where
  "add_collateral sofar position =
     bind_e sofar (\<lambda>a.
     bind_e (collateralValueInReferenceCurrency position) (\<lambda>v.
     Inr (dec_add a v)))"

definition totalCollateralValueInReferenceCurrency :: "Account \<Rightarrow> error + decimal" where
  "totalCollateralValueInReferenceCurrency account =
     foldl add_collateral (Inr dec_zero) (tokens account)"

definition numeric :: "string \<Rightarrow> bool" where
  "numeric v = (parse_decimal v \<noteq> None)"

text \<open>Scenario 2 of the specification: stored borrow 100, market index 1.1, account index 1.0.\<close>

definition scenario2_position :: AccountCToken where
  "scenario2_position =
     \<lparr>cTokenBalance = ''10'', storedBorrowBalance = ''100'', accountBorrowIndex = ''1.0'',
      totalUnderlyingSupplied = ''0'', totalUnderlyingRedeemed = ''0'',
      totalUnderlyingBorrowed = ''0'', totalUnderlyingRepaid = ''0'',
      market = \<lparr>borrowIndex = ''1.1'', collateralFactor = ''0.5'', exchangeRate = ''2'',
                underlyingPrice = ''1''\<rparr>\<rparr>"

text \<open>Scenario 1: a position that has never borrowed, its index is 0.\<close>

definition scenario1_position :: AccountCToken where
  "scenario1_position =
     \<lparr>cTokenBalance = ''10'', storedBorrowBalance = ''0'', accountBorrowIndex = ''0'',
      totalUnderlyingSupplied = ''0'', totalUnderlyingRedeemed = ''0'',
      totalUnderlyingBorrowed = ''0'', totalUnderlyingRepaid = ''0'',
      market = \<lparr>borrowIndex = ''1.1'', collateralFactor = ''0.5'', exchangeRate = ''2'',
                underlyingPrice = ''1''\<rparr>\<rparr>"

text \<open>
  Scenario 3: an account that has borrowed, with two positions of collateral 50 and 30
  (0.5 \<times> 1 \<times> 1 \<times> 100 and 0.5 \<times> 1 \<times> 1 \<times> 60) that owe nothing now: the stored borrow
  balance is 0 at a non-zero index.
\<close>

definition scenario3_position :: "string \<Rightarrow> AccountCToken" where
  "scenario3_position balance =
     \<lparr>cTokenBalance = balance, storedBorrowBalance = ''0'', accountBorrowIndex = ''1'',
      totalUnderlyingSupplied = ''0'', totalUnderlyingRedeemed = ''0'',
      totalUnderlyingBorrowed = ''0'', totalUnderlyingRepaid = ''0'',
      market = \<lparr>borrowIndex = ''1'', collateralFactor = ''0.5'', exchangeRate = ''1'',
                underlyingPrice = ''1''\<rparr>\<rparr>"

definition scenario3_account :: Account where
  "scenario3_account =
     \<lparr>hasBorrowed = True, tokens = [scenario3_position ''100'', scenario3_position ''60'']\<rparr>"

subsection \<open>The fields fetched for a fragment\<close>








text \<open>A run passes no raw string when every arithmetic call it makes has a decimal argument.\<close>

definition no_raw_operand :: "'a M \<Rightarrow> bool" where
  "no_raw_operand m = list_all (\<lambda>c. snd c = MoneyArg) (calls_of m)"

text \<open>Three requests: one header present but empty, one present with a value, none present.\<close>

definition empty_header_request :: request where
  "empty_header_request = \<lparr>headers = [''x_proxy_id'' \<mapsto> []], body = []\<rparr>"

definition proxied_request :: request where
  "proxied_request = \<lparr>headers = [''x_proxy_id'' \<mapsto> ''7''], body = []\<rparr>"

definition plain_request :: request where
  "plain_request = \<lparr>headers = [''content-type'' \<mapsto> ''application/json''], body = []\<rparr>"

section \<open>Basic facts\<close>

declare parse_decimal.simps [simp del]

lemmas M_defs = bindM_def returnM_def throwM_def deref_def in_field_def new_money_def bigdec_def
  argument_def record_call_def arith_def bigDecimal_multiply_def bigDecimal_add_def
  bigDecimal_plus_def bigDecimal_subtract_def bigDecimal_divide_def

lemma parse_zero: "parse_decimal ''0'' = Some dec_zero"
  unfolding dec_zero_def by code_simp

lemma outcome_simps [simp]:
  "outcome (Inl (e, s)) = Inl e" "outcome (Inr (a, s)) = Inr a"
  by (simp_all add: outcome_def)

lemma final_state_simps [simp]:
  "final_state (Inl (e, s)) = s" "final_state (Inr (a, s)) = s"
  by (simp_all add: final_state_def)

text \<open>The six readings of the decimal class.\<close>

lemma class_cases:
  obtains "cls = DecimalClass Converts Adds" | "cls = DecimalClass Converts Unary"
    | "cls = DecimalClass Converts Missing" | "cls = DecimalClass Rejects Adds"
    | "cls = DecimalClass Rejects Unary" | "cls = DecimalClass Rejects Missing"
proof (cases cls)
  case (DecimalClass x y)
  then show ?thesis using that by (cases x; cases y) simp_all
qed

lemma bindM_Inr:
  "bindM m f s = Inr (r, s') \<Longrightarrow> \<exists>a s1. m s = Inr (a, s1) \<and> f a s1 = Inr (r, s')"
  by (auto simp: bindM_def split: prod.splits sum.splits)

lemma floor_quot: "\<lfloor>(of_int a / of_int b :: rat)\<rfloor> = a div b"
  by (rule floor_divide_of_int_eq)

text \<open>Truncating integer division is the quotient rounded toward zero.\<close>

lemma tdiv_round_down:
  assumes "y \<noteq> 0"
  shows "tdiv x y = round_down (of_int x / of_int y)"
proof -
  consider (pp) "0 \<le> x" "0 < y" | (np) "x < 0" "0 < y" | (pn) "0 \<le> x" "y < 0" | (nn) "x < 0" "y < 0"
    using assms by linarith
  then show ?thesis
  proof cases
    case pp
    then have "0 \<le> (of_int x / of_int y :: rat)" by simp
    moreover have "tdiv x y = x div y" using pp by (cases "x = 0") (simp_all add: tdiv_def)
    ultimately show ?thesis by (simp add: round_down_def floor_quot)
  next
    case np
    then have q: "(of_int x / of_int y :: rat) < 0" by (simp add: divide_neg_pos)
    have "\<lceil>(of_int x / of_int y :: rat)\<rceil> = - \<lfloor>(of_int (- x) / of_int y :: rat)\<rfloor>"
      by (simp add: ceiling_def)
    also have "\<dots> = - ((- x) div y)" by (simp only: floor_quot)
    finally have "round_down (of_int x / of_int y) = - ((- x) div y)"
      using q by (simp add: round_down_def)
    moreover have "tdiv x y = - ((- x) div y)" using np by (simp add: tdiv_def)
    ultimately show ?thesis by simp
  next
    case pn
    show ?thesis
    proof (cases "x = 0")
      case True
      then show ?thesis by (simp add: tdiv_def round_down_def)
    next
      case False
      with pn have xp: "0 < x" by simp
      then have q: "(of_int x / of_int y :: rat) < 0" using pn by (simp add: divide_pos_neg)
      have "\<lceil>(of_int x / of_int y :: rat)\<rceil> = - \<lfloor>(of_int x / of_int (- y) :: rat)\<rfloor>"
        by (simp add: ceiling_def)
      also have "\<dots> = - (x div (- y))" by (simp only: floor_quot)
      finally have "round_down (of_int x / of_int y) = - (x div (- y))"
        using q by (simp add: round_down_def)
      moreover have "tdiv x y = - (x div (- y))" using pn xp by (simp add: tdiv_def)
      ultimately show ?thesis by simp
    qed
  next
    case nn
    then have q: "0 \<le> (of_int x / of_int y :: rat)" by (simp add: zero_le_divide_iff)
    have "(of_int x / of_int y :: rat) = of_int (- x) / of_int (- y)" by simp
    then have "\<lfloor>(of_int x / of_int y :: rat)\<rfloor> = (- x) div (- y)" by (simp only: floor_quot)
    then have "round_down (of_int x / of_int y) = (- x) div (- y)"
      using q by (simp add: round_down_def)
    moreover have "tdiv x y = (- x) div (- y)" using nn by (simp add: tdiv_def)
    ultimately show ?thesis by simp
  qed
qed

lemma dec_value_quot:
  assumes "unscaled i \<noteq> 0"
  shows "dec_value a * dec_value b / dec_value i * 10 ^ 18
       = of_int (unscaled a * unscaled b * 10 ^ (18 + dscale i))
         / of_int (unscaled i * 10 ^ (dscale a + dscale b))"
  using assms by (simp add: dec_value_def power_add field_simps)

text \<open>
  Two decimal objects made one after the other are different objects, whatever they hold:
  a branch guarded by \<^verbatim>\<open>==\<close> between them is never taken.
\<close>

lemma guard_never_holds:
  "bindM (bigdec i) (\<lambda>a. bindM (bigdec ''0'') (\<lambda>z. if js_eq a z then f a z else g a z)) s
   = bindM (bigdec i) (\<lambda>a. bindM (bigdec ''0'') (\<lambda>z. g a z)) s"
  by (simp add: bindM_def bigdec_def new_money_def js_eq_def parse_zero split: option.splits)

section \<open>The borrow balance of a position\<close>

text \<open>
  With the guard out of play, a zero index never gives a value: under every reading of the
  decimal class, a position whose index is the decimal 0 makes the function raise.
\<close>

lemma zero_index_never_returns:
  assumes "parse_decimal (accountBorrowIndex cToken) = Some i" and "unscaled i = 0"
  shows "\<exists>e. outcome (borrowBalanceUnderlying cls cToken s) = Inl e"
  using assms
  by (auto simp: borrowBalanceUnderlying_def M_defs js_eq_def parse_zero dec_div_def
      split: option.splits string_args.splits)

text \<open>
  When the class reads string arguments as decimals and the other two fields are decimal
  strings, the error is the division by zero.
\<close>

lemma zero_index_always_divides:
  assumes "parse_decimal (storedBorrowBalance cToken) = Some a"
    and "parse_decimal (borrowIndex (market cToken)) = Some b"
    and "parse_decimal (accountBorrowIndex cToken) = Some i"
    and "unscaled i = 0"
  shows "outcome (borrowBalanceUnderlying (DecimalClass Converts p) cToken s) = Inl DivisionByZero"
  using assms
  by (simp add: borrowBalanceUnderlying_def M_defs js_eq_def parse_zero dec_div_def)

text \<open>
  C1. The specification says that a position whose \<open>accountBorrowIndex\<close> is the decimal 0
  has borrow balance 0, with no division performed. The source guards the division with
  \<^verbatim>\<open>bigdec(cToken.accountBorrowIndex)==(bigdec('0'))\<close>, a comparison of two distinct objects,
  which is false for every input, so the branch that returns 0 is never taken. On the
  position of scenario 1 the function raises under every reading of the decimal class: the
  division is carried out with divisor 0 when the class reads string arguments as
  decimals, and the call of \<^verbatim>\<open>multiply\<close> fails before it when the class rejects them.
\<close>

theorem borrowBalanceUnderlying_zero_index_divides:
  "outcome (borrowBalanceUnderlying (DecimalClass Converts p) scenario1_position init_state)
     = Inl DivisionByZero
   \<and> outcome (borrowBalanceUnderlying (DecimalClass Rejects p) scenario1_position init_state)
     = Inl TypeError
   \<and> raises (borrowBalanceUnderlying cls scenario1_position)"
proof -
  have c: "outcome (borrowBalanceUnderlying (DecimalClass Converts p) scenario1_position init_state)
     = Inl DivisionByZero"
    by (cases p; hypsubst; code_simp)
  have r: "outcome (borrowBalanceUnderlying (DecimalClass Rejects p) scenario1_position init_state)
     = Inl TypeError"
    by (cases p; hypsubst; code_simp)
  have "raises (borrowBalanceUnderlying cls scenario1_position)"
    by (cases cls rule: class_cases; hypsubst; code_simp)
  with c r show ?thesis by simp
qed

text \<open>
  What the function returns for a non-zero index depends on the reading of the class. When
  string arguments are read as decimals, it is the decimal with 18 fractional digits whose
  unscaled value is \<open>storedBorrowBalance \<times> market.borrowIndex / accountBorrowIndex \<times> 10^18\<close>
  rounded toward zero; when they are rejected, the function raises.
\<close>

lemma borrowBalanceUnderlying_when_strings_convert:
  assumes "parse_decimal (storedBorrowBalance cToken) = Some a"
    and "parse_decimal (borrowIndex (market cToken)) = Some b"
    and "parse_decimal (accountBorrowIndex cToken) = Some i"
    and "unscaled i \<noteq> 0"
  shows "\<exists>m s'. borrowBalanceUnderlying (DecimalClass Converts p) cToken s = Inr (m, s') \<and>
           dscale (dec m) = 18 \<and>
           unscaled (dec m) = round_down (dec_value a * dec_value b / dec_value i * 10 ^ 18)"
proof -
  have nz: "unscaled i * 10 ^ (dscale a + dscale b) \<noteq> 0" using assms(4) by simp
  have "\<exists>m s'. borrowBalanceUnderlying (DecimalClass Converts p) cToken s = Inr (m, s') \<and>
          dscale (dec m) = 18 \<and>
          unscaled (dec m) = tdiv (unscaled a * unscaled b * 10 ^ (18 + dscale i))
                                  (unscaled i * 10 ^ (dscale a + dscale b))"
    using assms
    by (simp add: borrowBalanceUnderlying_def M_defs js_eq_def parse_zero dec_div_def dec_mul_def)
  then show ?thesis
    by (simp only: dec_value_quot[OF assms(4)] tdiv_round_down[OF nz])
qed

lemma borrowBalanceUnderlying_when_strings_rejected:
  assumes "parse_decimal (storedBorrowBalance cToken) = Some a"
    and "parse_decimal (accountBorrowIndex cToken) = Some i"
  shows "outcome (borrowBalanceUnderlying (DecimalClass Rejects p) cToken s) = Inl TypeError"
  using assms
  by (simp add: borrowBalanceUnderlying_def M_defs js_eq_def parse_zero)

section \<open>Accounts that have not borrowed\<close>

text \<open>
  C2. For an account with \<open>hasBorrowed = false\<close>, \<open>totalBorrowValueInEth\<close> returns the
  decimal 0 and the resolver of \<open>health\<close> returns \<open>null\<close>, under every reading of the
  decimal class.
\<close>

theorem no_borrow_account:
  assumes "\<not> hasBorrowed account"
  shows "(\<exists>m s'. totalBorrowValueInEth cls account s = Inr (m, s') \<and> dec m = dec_zero)
       \<and> (\<exists>s'. health_resolve cls account s = Inr (None, s'))"
  using assms
  by (simp add: totalBorrowValueInEth_def health_resolve_def bindM_def returnM_def deref_def
      bigdec_def new_money_def parse_zero)

theorem no_borrow_account_witness:
  "\<not> hasBorrowed (scenario3_account\<lparr>hasBorrowed := False\<rparr>)
   \<and> (\<exists>m s'. totalBorrowValueInEth (DecimalClass Rejects Missing)
                (scenario3_account\<lparr>hasBorrowed := False\<rparr>) init_state = Inr (m, s')
         \<and> dec m = dec_zero)
   \<and> (\<exists>s'. health_resolve (DecimalClass Rejects Missing)
              (scenario3_account\<lparr>hasBorrowed := False\<rparr>) init_state = Inr (None, s'))"
proof -
  have h: "\<not> hasBorrowed (scenario3_account\<lparr>hasBorrowed := False\<rparr>)" by simp
  show ?thesis
    using h no_borrow_account [OF h, of "DecimalClass Rejects Missing" init_state] by simp
qed

section \<open>Health of an account that owes nothing\<close>

text \<open>
  An object returned by \<open>totalBorrowValueInEth\<close> was made before the resolver makes the
  zero it compares it with, so the two are never the same object. Hence, whenever the
  resolver returns for an account that has borrowed, it has divided by a total that is not
  zero: the branch that returns the collateral is never taken, under any reading of the
  decimal class.
\<close>

lemma plus_fresh:
  "bigDecimal_plus cls acc x s = Inr (m, s') \<Longrightarrow> obj_id acc < next_id s \<Longrightarrow>
     obj_id m < next_id s'"
  by (auto simp: M_defs split: sum.splits operand.splits option.splits prod.splits
      plus_method.splits string_args.splits)

lemma multiply_next_id:
  "bigDecimal_multiply cls a x s = Inr (r, s') \<Longrightarrow> next_id s \<le> next_id s'"
  by (auto simp: M_defs split: sum.splits operand.splits option.splits prod.splits
      string_args.splits)

lemma divide_next_id:
  "bigDecimal_divide cls a x sc s = Inr (r, s') \<Longrightarrow> next_id s \<le> next_id s'"
  by (auto simp: M_defs split: sum.splits operand.splits option.splits prod.splits
      string_args.splits)

lemma bigdec_next_id: "bigdec v s = Inr (r, s') \<Longrightarrow> next_id s \<le> next_id s'"
  by (auto simp: bigdec_def new_money_def split: option.splits)

lemma deref_next_id: "deref p v s = Inr (r, s') \<Longrightarrow> next_id s' = next_id s"
  by (auto simp: deref_def)

lemma borrowBalanceUnderlying_next_id:
  assumes "borrowBalanceUnderlying cls t s = Inr (bb, s')"
  shows "next_id s \<le> next_id s'"
proof -
  from assms obtain i s1 a s2 z s3 where
    d1: "deref [''accountBorrowIndex''] (accountBorrowIndex t) s = Inr (i, s1)"
    and b1: "bigdec i s1 = Inr (a, s2)" and b2: "bigdec ''0'' s2 = Inr (z, s3)"
    and rest: "(if js_eq a z then bigdec ''0''
     else
       bindM (deref [''storedBorrowBalance''] (storedBorrowBalance t)) (\<lambda>sb.
       bindM (bigdec sb) (\<lambda>m.
       bindM (deref [''market'', ''borrowIndex''] (borrowIndex (market t))) (\<lambda>bi.
       bindM (bigDecimal_multiply cls m (Str bi)) (\<lambda>p.
       bindM (deref [''accountBorrowIndex''] (accountBorrowIndex t)) (\<lambda>i2.
       bigDecimal_divide cls p (Str i2) 18)))))) s3 = Inr (bb, s')"
    unfolding borrowBalanceUnderlying_def by (blast dest: bindM_Inr)
  have n3: "next_id s \<le> next_id s3"
    using d1 b1 b2 by (auto dest!: deref_next_id bigdec_next_id)
  have "next_id s3 \<le> next_id s'"
  proof (cases "js_eq a z")
    case True
    with rest show ?thesis by (auto dest: bigdec_next_id)
  next
    case False
    with rest obtain sb s4 m s5 bi s6 p s7 i2 s8 where
      "deref [''storedBorrowBalance''] (storedBorrowBalance t) s3 = Inr (sb, s4)"
      "bigdec sb s4 = Inr (m, s5)"
      "deref [''market'', ''borrowIndex''] (borrowIndex (market t)) s5 = Inr (bi, s6)"
      "bigDecimal_multiply cls m (Str bi) s6 = Inr (p, s7)"
      "deref [''accountBorrowIndex''] (accountBorrowIndex t) s7 = Inr (i2, s8)"
      "bigDecimal_divide cls p (Str i2) 18 s8 = Inr (bb, s')"
      by (auto dest!: bindM_Inr)
    then show ?thesis
      by (auto dest!: deref_next_id bigdec_next_id multiply_next_id divide_next_id)
  qed
  with n3 show ?thesis by simp
qed

lemma in_field_Inr:
  "in_field f m s = Inr (a, s') \<Longrightarrow>
     \<exists>s1. m (s\<lparr>scope := scope s @ [f]\<rparr>) = Inr (a, s1) \<and> next_id s' = next_id s1"
  by (auto simp: in_field_def split: prod.splits sum.splits)

lemma borrow_step_fresh:
  assumes "borrow_step cls acc t s = Inr (m, s')" and "obj_id acc < next_id s"
  shows "obj_id m < next_id s'"
proof -
  let ?s = "s\<lparr>scope := scope s @ [''___tokens'']\<rparr>"
  from assms(1) obtain s9 where
    run: "bindM (deref [''market'', ''underlyingPrice''] (underlyingPrice (market t))) (\<lambda>up.
        bindM (bigdec up) (\<lambda>p.
        bindM (borrowBalanceUnderlying cls t) (\<lambda>bb.
        bindM (bigDecimal_multiply cls p (Obj bb)) (\<lambda>v.
        bigDecimal_plus cls acc (Obj v))))) ?s = Inr (m, s9)"
    and n: "next_id s' = next_id s9"
    unfolding borrow_step_def by (blast dest: in_field_Inr)
  from run obtain up s1 p s2 bb s3 v s4 where
    "deref [''market'', ''underlyingPrice''] (underlyingPrice (market t)) ?s = Inr (up, s1)"
    "bigdec up s1 = Inr (p, s2)"
    "borrowBalanceUnderlying cls t s2 = Inr (bb, s3)"
    "bigDecimal_multiply cls p (Obj bb) s3 = Inr (v, s4)"
    and pl: "bigDecimal_plus cls acc (Obj v) s4 = Inr (m, s9)"
    by (auto dest!: bindM_Inr)
  then have "next_id ?s \<le> next_id s4"
    by (auto dest!: deref_next_id bigdec_next_id multiply_next_id
        borrowBalanceUnderlying_next_id)
  with assms(2) have "obj_id acc < next_id s4" by simp
  with pl have "obj_id m < next_id s9" by (rule plus_fresh)
  with n show ?thesis by simp
qed

lemma reduce_borrow_fresh:
  "reduceM (borrow_step cls) acc ts s = Inr (m, s') \<Longrightarrow> obj_id acc < next_id s \<Longrightarrow>
     obj_id m < next_id s'"
proof (induction ts arbitrary: acc s)
  case Nil
  then show ?case by (simp add: returnM_def)
next
  case (Cons t ts)
  from Cons.prems(1) obtain acc' s1 where st: "borrow_step cls acc t s = Inr (acc', s1)"
    and re: "reduceM (borrow_step cls) acc' ts s1 = Inr (m, s')"
    by (auto dest: bindM_Inr)
  from st Cons.prems(2) have "obj_id acc' < next_id s1" by (rule borrow_step_fresh)
  with re show ?case by (rule Cons.IH)
qed

lemma totalBorrow_fresh:
  assumes "totalBorrowValueInEth cls account s = Inr (m, s')"
  shows "obj_id m < next_id s'"
proof (cases "hasBorrowed account")
  case False
  with assms show ?thesis
    by (auto simp: totalBorrowValueInEth_def bindM_def deref_def bigdec_def new_money_def parse_zero)
next
  case True
  let ?s = "s\<lparr>derefs := derefs s @ [scope s @ [''hasBorrowed'']]\<rparr>"
  let ?s2 = "?s\<lparr>derefs := derefs ?s @ [scope ?s @ [''___tokens'']]\<rparr>"
  let ?z = "\<lparr>obj_id = next_id s, dec = dec_zero\<rparr>"
  have "totalBorrowValueInEth cls account s
        = reduceM (borrow_step cls) ?z (tokens account) (?s2\<lparr>next_id := Suc (next_id s)\<rparr>)"
    using True
    by (simp add: totalBorrowValueInEth_def bindM_def deref_def bigdec_def new_money_def parse_zero)
  with assms have "reduceM (borrow_step cls) ?z (tokens account) (?s2\<lparr>next_id := Suc (next_id s)\<rparr>)
                   = Inr (m, s')"
    by simp
  then show ?thesis by (rule reduce_borrow_fresh) simp
qed

lemma health_returns_only_after_division:
  assumes "hasBorrowed account" and "health_resolve cls account s = Inr (r, s')"
  shows "\<exists>tb s1. totalBorrowValueInEth cls account
                   (s\<lparr>derefs := derefs s @ [scope s @ [''hasBorrowed'']]\<rparr>) = Inr (tb, s1)
                 \<and> unscaled (dec tb) \<noteq> 0"
proof -
  let ?s = "s\<lparr>derefs := derefs s @ [scope s @ [''hasBorrowed'']]\<rparr>"
  have h: "health_resolve cls account s =
       bindM (totalBorrowValueInEth cls account) (\<lambda>totalBorrow.
       bindM (bigdec ''0'') (\<lambda>z.
       if js_eq totalBorrow z
       then bindM (totalCollateralValueInEth cls account) (\<lambda>c. returnM (Some c))
       else
         bindM (totalCollateralValueInEth cls account) (\<lambda>c.
         bindM (bigDecimal_divide cls c (Obj totalBorrow) 18) (\<lambda>h.
         returnM (Some h))))) ?s"
    using assms(1) by (simp add: health_resolve_def bindM_def deref_def)
  with assms(2) obtain tb s1 where tb: "totalBorrowValueInEth cls account ?s = Inr (tb, s1)"
    and rest: "bindM (bigdec ''0'') (\<lambda>z.
       if js_eq tb z
       then bindM (totalCollateralValueInEth cls account) (\<lambda>c. returnM (Some c))
       else
         bindM (totalCollateralValueInEth cls account) (\<lambda>c.
         bindM (bigDecimal_divide cls c (Obj tb) 18) (\<lambda>h.
         returnM (Some h)))) s1 = Inr (r, s')"
    by (auto dest: bindM_Inr)
  from tb have fresh: "obj_id tb < next_id s1" by (rule totalBorrow_fresh)
  let ?s2 = "s1\<lparr>next_id := Suc (next_id s1)\<rparr>"
  from rest fresh have "bindM (totalCollateralValueInEth cls account) (\<lambda>c.
         bindM (bigDecimal_divide cls c (Obj tb) 18) (\<lambda>h.
         returnM (Some h))) ?s2 = Inr (r, s')"
    by (simp add: bindM_def bigdec_def new_money_def parse_zero js_eq_def)
  then obtain c s3 h s4 where "bigDecimal_divide cls c (Obj tb) 18 s3 = Inr (h, s4)"
    by (blast dest: bindM_Inr)
  then have "unscaled (dec tb) \<noteq> 0"
    by (auto simp: M_defs dec_div_def split: if_splits)
  with tb show ?thesis by blast
qed

text \<open>
  C3. The specification says that an account that has borrowed and whose total borrow value
  is 0 has health equal to its total collateral, with no division performed. The resolver
  guards the division with \<^verbatim>\<open>totalBorrow == bigdec('0')\<close>, again a comparison of two distinct
  objects, so the branch that returns the collateral is never taken. On the account of
  scenario 3 the resolver raises under every reading of the decimal class; when the class
  reads string arguments as decimals and \<^verbatim>\<open>plus\<close> adds, the total borrow is 0, the total
  collateral is 80 and the error is the division by zero.
\<close>

theorem health_zero_borrow_divides:
  "value_of (totalBorrowValueInEth (DecimalClass Converts Adds) scenario3_account) init_state
     = Inr \<lparr>unscaled = 0, dscale = 18\<rparr>
   \<and> value_of (totalCollateralValueInEth (DecimalClass Converts Adds) scenario3_account) init_state
     = Inr \<lparr>unscaled = 800, dscale = 1\<rparr>
   \<and> outcome (health_resolve (DecimalClass Converts Adds) scenario3_account init_state)
     = Inl DivisionByZero
   \<and> raises (health_resolve cls scenario3_account)"
proof -
  have "raises (health_resolve cls scenario3_account)"
    by (cases cls rule: class_cases; hypsubst; code_simp)
  moreover have
    "value_of (totalBorrowValueInEth (DecimalClass Converts Adds) scenario3_account) init_state
       = Inr \<lparr>unscaled = 0, dscale = 18\<rparr>"
    by code_simp
  moreover have
    "value_of (totalCollateralValueInEth (DecimalClass Converts Adds) scenario3_account) init_state
       = Inr \<lparr>unscaled = 800, dscale = 1\<rparr>"
    by code_simp
  moreover have
    "outcome (health_resolve (DecimalClass Converts Adds) scenario3_account init_state)
       = Inl DivisionByZero"
    by code_simp
  ultimately show ?thesis by simp
qed

section \<open>Total collateral\<close>

text \<open>
  What \<open>totalCollateralValueInEth\<close> returns depends on the reading of the class. When
  string arguments are read as decimals and \<^verbatim>\<open>plus\<close> adds, it is the left fold, starting
  from the decimal 0, of \<open>collateralFactor \<times> exchangeRate \<times> underlyingPrice \<times> balance\<close>
  over the account's positions in list order.
\<close>

lemma collateral_step_value:
  "collateral_step (DecimalClass Converts Adds) acc t s = Inr (acc', s') \<Longrightarrow>
     \<exists>v. collateralValueInReferenceCurrency t = Inr v \<and> dec acc' = dec_add (dec acc) v"
  by (auto simp: collateral_step_def tokenInEth_def M_defs collateralValueInReferenceCurrency_def
      bind_e_def parse_e_def split: option.splits)

lemma collateral_step_error:
  "collateral_step (DecimalClass Converts Adds) acc t s = Inl (e, s') \<Longrightarrow>
     collateralValueInReferenceCurrency t = Inl e"
  by (auto simp: collateral_step_def tokenInEth_def M_defs collateralValueInReferenceCurrency_def
      bind_e_def parse_e_def split: option.splits)

lemma foldl_add_collateral_error: "foldl add_collateral (Inl e) ts = Inl e"
  by (induction ts) (simp_all add: add_collateral_def bind_e_def)

lemma reduce_collateral_refines:
  "value_of (reduceM (collateral_step (DecimalClass Converts Adds)) acc ts) s
     = foldl add_collateral (Inr (dec acc)) ts"
proof (induction ts arbitrary: acc s)
  case Nil
  show ?case by (simp add: value_of_def returnM_def)
next
  case (Cons t ts)
  show ?case
  proof (cases "collateral_step (DecimalClass Converts Adds) acc t s")
    case (Inl r)
    obtain e s' where r: "r = (e, s')" by (cases r)
    with Inl have "collateralValueInReferenceCurrency t = Inl e"
      by (auto dest: collateral_step_error)
    then have "add_collateral (Inr (dec acc)) t = Inl e"
      by (simp add: add_collateral_def bind_e_def)
    then show ?thesis
      using Inl r by (simp add: value_of_def bindM_def foldl_add_collateral_error)
  next
    case (Inr r)
    obtain acc' s' where r: "r = (acc', s')" by (cases r)
    with Inr obtain v where v: "collateralValueInReferenceCurrency t = Inr v"
      and a: "dec acc' = dec_add (dec acc) v"
      using collateral_step_value by blast
    have "add_collateral (Inr (dec acc)) t = Inr (dec acc')"
      using v a by (simp add: add_collateral_def bind_e_def)
    moreover have "value_of (reduceM (collateral_step (DecimalClass Converts Adds)) acc (t # ts)) s
                   = value_of (reduceM (collateral_step (DecimalClass Converts Adds)) acc' ts) s'"
      using Inr r by (simp add: value_of_def bindM_def)
    ultimately show ?thesis using Cons.IH [of acc' s'] by simp
  qed
qed

lemma totalCollateral_when_plus_adds:
  "value_of (totalCollateralValueInEth (DecimalClass Converts Adds) account) s
     = totalCollateralValueInReferenceCurrency account"
proof -
  let ?z = "\<lparr>obj_id = next_id s, dec = dec_zero\<rparr>"
  let ?s = "s\<lparr>derefs := derefs s @ [scope s @ [''___tokens'']], next_id := Suc (next_id s)\<rparr>"
  have "totalCollateralValueInEth (DecimalClass Converts Adds) account s
          = reduceM (collateral_step (DecimalClass Converts Adds)) ?z (tokens account) ?s"
    by (simp add: totalCollateralValueInEth_def bindM_def deref_def bigdec_def new_money_def parse_zero)
  then have "value_of (totalCollateralValueInEth (DecimalClass Converts Adds) account) s
           = value_of (reduceM (collateral_step (DecimalClass Converts Adds)) ?z (tokens account)) ?s"
    by (simp add: value_of_def)
  then show ?thesis
    by (simp add: reduce_collateral_refines totalCollateralValueInReferenceCurrency_def)
qed

text \<open>
  Under the other readings the account of scenario 3, whose fold is 50 + 30 = 80, gives
  something else: 0 when \<^verbatim>\<open>plus\<close> is the unary plus, and an error when \<^verbatim>\<open>plus\<close> is missing
  or when string arguments are rejected.
\<close>

lemma totalCollateral_under_other_readings:
  "totalCollateralValueInReferenceCurrency scenario3_account = Inr \<lparr>unscaled = 800, dscale = 1\<rparr>"
  "value_of (totalCollateralValueInEth (DecimalClass Converts Unary) scenario3_account) init_state
     = Inr \<lparr>unscaled = 0, dscale = 0\<rparr>"
  "value_of (totalCollateralValueInEth (DecimalClass Converts Missing) scenario3_account) init_state
     = Inl TypeError"
  "value_of (totalCollateralValueInEth (DecimalClass Rejects Adds) scenario3_account) init_state
     = Inl TypeError"
  by code_simp+

section \<open>Raw strings as arithmetic operands\<close>

text \<open>
  Whatever the class does with it, \<open>supplyBalanceUnderlying\<close> passes the raw string
  \<^verbatim>\<open>cToken.market.exchangeRate\<close> to \<^verbatim>\<open>multiply\<close>, for every position whose balance is a
  decimal string.
\<close>

lemma supplyBalanceUnderlying_passes_raw_string:
  assumes "numeric (cTokenBalance cToken)"
  shows "calls_of (supplyBalanceUnderlying cls cToken) = [(''multiply'', RawStringArg)]"
  using assms
  by (cases cls rule: class_cases)
     (auto simp: calls_of_def supplyBalanceUnderlying_def M_defs init_state_def numeric_def
      split: option.splits)

text \<open>
  Other calls of the source pass a parsed decimal: in the reduction of
  \<open>totalBorrowValueInEth\<close> the argument of \<^verbatim>\<open>multiply\<close> is the result of
  \<open>borrowBalanceUnderlying\<close> and the argument of \<^verbatim>\<open>plus\<close> is a product.
\<close>

lemma sibling_calls_pass_decimals:
  "calls_of (totalBorrowValueInEth (DecimalClass Converts Adds) scenario3_account)
     = [(''multiply'', RawStringArg), (''divide'', RawStringArg),
        (''multiply'', MoneyArg), (''plus'', MoneyArg),
        (''multiply'', RawStringArg), (''divide'', RawStringArg),
        (''multiply'', MoneyArg), (''plus'', MoneyArg)]"
  by code_simp

text \<open>
  C8. The specification says that every upstream field is parsed into a decimal before it
  takes part in arithmetic, and that no raw string is passed as an arithmetic operand. On
  the position of scenario 2, under every reading of the decimal class, the one arithmetic
  call that \<open>supplyBalanceUnderlying\<close> makes is \<^verbatim>\<open>multiply\<close> with the raw string
  \<^verbatim>\<open>cToken.market.exchangeRate\<close> as its operand.
\<close>

theorem raw_string_operand_passed:
  "\<not> no_raw_operand (supplyBalanceUnderlying cls scenario2_position)
   \<and> calls_of (supplyBalanceUnderlying cls scenario2_position) = [(''multiply'', RawStringArg)]"
  by (cases cls rule: class_cases; hypsubst; code_simp)

section \<open>Fragments and the fields a resolver reads\<close>

subsection \<open>Reading within a set of paths\<close>



















subsection \<open>The fields each function reads\<close>













subsection \<open>Coverage\<close>





section \<open>Declared extension fields\<close>

text \<open>Seven of the nine registered fields are declared, each as a non-null \<open>BigDecimal\<close>.\<close>

lemma declared_fields:
  "declared ''Account'' ''totalBorrowValueInEth'' = Some \<lparr>type_name = ''BigDecimal'', non_null = True\<rparr>"
  "declared ''Account'' ''totalCollateralValueInEth'' = Some \<lparr>type_name = ''BigDecimal'', non_null = True\<rparr>"
  "declared ''AccountCToken'' ''supplyBalanceUnderlying'' = Some \<lparr>type_name = ''BigDecimal'', non_null = True\<rparr>"
  "declared ''AccountCToken'' ''supplyBalanceETH'' = Some \<lparr>type_name = ''BigDecimal'', non_null = True\<rparr>"
  "declared ''AccountCToken'' ''lifetimeSupplyInterestAccrued'' = Some \<lparr>type_name = ''BigDecimal'', non_null = True\<rparr>"
  "declared ''AccountCToken'' ''borrowBalanceUnderlying'' = Some \<lparr>type_name = ''BigDecimal'', non_null = True\<rparr>"
  "declared ''AccountCToken'' ''lifetimeBorrowInterestAccrued'' = Some \<lparr>type_name = ''BigDecimal'', non_null = True\<rparr>"
  by code_simp+

text \<open>
  C6. The specification says that the extension surface declares \<open>health\<close> on \<open>Account\<close>
  and \<open>borrowBalanceETH\<close> on \<open>AccountCToken\<close> among its nine fields, so that every field with
  a resolver is declared. \<^verbatim>\<open>customSchema\<close> declares neither of the two, although a resolver
  is registered for each.
\<close>

theorem resolvers_without_declaration:
  "registered ''Account'' ''health'' \<and> declared ''Account'' ''health'' = None
   \<and> registered ''AccountCToken'' ''borrowBalanceETH''
   \<and> declared ''AccountCToken'' ''borrowBalanceETH'' = None"
  by code_simp

section \<open>Routing\<close>

text \<open>
  C9. An operation goes to the WebSocket link exactly when its main definition is an
  \<open>OperationDefinition\<close> whose operation is \<open>subscription\<close>, and to the HTTP link otherwise;
  the choice depends on the operation alone.
\<close>

theorem link_routes_subscriptions:
  "(link d = WsLink) = (kind d = ''OperationDefinition'' \<and> operation d = Some ''subscription'')
   \<and> (link d = HttpLink) = (\<not> (kind d = ''OperationDefinition'' \<and> operation d = Some ''subscription''))"
  by (simp add: link_def split_link_def is_subscription_def)

theorem link_routes_subscriptions_witness:
  "link \<lparr>kind = ''OperationDefinition'', operation = Some ''subscription''\<rparr> = WsLink
   \<and> link \<lparr>kind = ''OperationDefinition'', operation = Some ''query''\<rparr> = HttpLink
   \<and> link \<lparr>kind = ''OperationDefinition'', operation = Some ''mutation''\<rparr> = HttpLink
   \<and> link \<lparr>kind = ''FragmentDefinition'', operation = None\<rparr> = HttpLink"
  using link_routes_subscriptions [of "\<lparr>kind = ''OperationDefinition'', operation = Some ''subscription''\<rparr>"]
    link_routes_subscriptions [of "\<lparr>kind = ''OperationDefinition'', operation = Some ''query''\<rparr>"]
    link_routes_subscriptions [of "\<lparr>kind = ''OperationDefinition'', operation = Some ''mutation''\<rparr>"]
    link_routes_subscriptions [of "\<lparr>kind = ''FragmentDefinition'', operation = None\<rparr>"]
  by simp

section \<open>Rejected headers\<close>

text \<open>
  C10, as stated: every request that carries a \<open>challenge-bypass-token\<close> or \<open>x_proxy_id\<close>
  header is answered with 400. A request that carries \<open>x_proxy_id\<close> with an empty value is
  passed to the next handler, since the empty string does not satisfy the condition.
\<close>

theorem empty_header_passes:
  "headers empty_header_request ''x_proxy_id'' = Some [] \<and>
   rejectBadHeaders empty_header_request = Next empty_header_request"
  by (simp add: empty_header_request_def rejectBadHeaders_def truthy_def)

text \<open>
  C10, amended: a request in which one of the two headers has a non-empty value is answered
  with status 400 and the body \<open>Bad Request\<close>, and is not passed on; a request in which
  each of the two headers is absent or empty is passed to the next handler unchanged.
\<close>

theorem rejectBadHeaders_nonempty:
  "((\<exists>v. v \<noteq> [] \<and> (headers req ''challenge-bypass-token'' = Some v \<or>
                      headers req ''x_proxy_id'' = Some v))
      \<longrightarrow> rejectBadHeaders req = Responded 400 ''Bad Request'')
   \<and> ((headers req ''challenge-bypass-token'' = None \<or> headers req ''challenge-bypass-token'' = Some [])
       \<and> (headers req ''x_proxy_id'' = None \<or> headers req ''x_proxy_id'' = Some [])
      \<longrightarrow> rejectBadHeaders req = Next req)"
  by (auto simp: rejectBadHeaders_def truthy_def split: option.splits)

theorem rejectBadHeaders_nonempty_witness:
  "headers proxied_request ''x_proxy_id'' = Some ''7''
   \<and> rejectBadHeaders proxied_request = Responded 400 ''Bad Request''
   \<and> headers plain_request ''challenge-bypass-token'' = None
   \<and> headers plain_request ''x_proxy_id'' = None
   \<and> rejectBadHeaders plain_request = Next plain_request"
proof -
  have h1: "headers proxied_request ''x_proxy_id'' = Some ''7''"
    by (simp add: proxied_request_def)
  have h2: "headers plain_request ''challenge-bypass-token'' = None"
    by (simp add: plain_request_def)
  have h3: "headers plain_request ''x_proxy_id'' = None"
    by (simp add: plain_request_def)
  from h1 rejectBadHeaders_nonempty [of proxied_request]
  have c1: "rejectBadHeaders proxied_request = Responded 400 ''Bad Request''" by blast
  from h2 h3 rejectBadHeaders_nonempty [of plain_request]
  have c2: "rejectBadHeaders plain_request = Next plain_request" by blast
  show ?thesis using h1 h2 h3 c1 c2 by simp
qed

end
